theory Spec2Isabelle
  imports Complex_Main "HOL-Library.Monad_Syntax"
begin

section \<open>GPA calculator: the helper functions and the What If handler of app.py\<close>

text \<open>
  The program is a Streamlit script. Its numbers are Python floats and ints; they are
  modelled here as \<^typ>\<open>real\<close>, so every result below is a statement in exact
  arithmetic, and rounding of floating-point operations is outside the model.
  The functions that compute with floats are modelled a second time, with every
  operation rounded as binary64 rounds it, in the section on binary64 arithmetic below;
  the names of that second model end in \<open>_f64\<close>. It decides the two properties that
  hold in exact arithmetic and fail by a rounding error in the program.

  A grade point is a Python float or \<open>None\<close> (the value the table gives to "Pass");
  it is a \<^typ>\<open>real option\<close>, with \<^term>\<open>None\<close> for Python's \<open>None\<close>.
\<close>

subsection \<open>What a call shows or returns\<close>

text \<open>
  \<open>st.error(m)\<close> and \<open>st.warning(m)\<close> put a message on the page. A path of the
  code that shows such a message and yields no number (\<open>return None\<close> in
  \<open>calculate_cumulative_gpa\<close>, a branch of the button handler that computes nothing)
  is \<open>Inl\<close> of the message; a path that yields a number is \<open>Inr\<close> of it.
\<close>

datatype st_message = StError string | StWarning string

subsection \<open>get_grade_point\<close>

definition grade_map :: "(string \<times> real option) list" where
  "grade_map =
     [(''A+'', Some 4.0), (''A'', Some 4.0), (''A-'', Some 3.7),
      (''B+'', Some 3.3), (''B'', Some 3.0), (''B-'', Some 2.7),
      (''C+'', Some 2.3), (''C'', Some 2.0), (''C-'', Some 1.7),
      (''D+'', Some 1.3), (''D'', Some 1.0), (''D-'', Some 0.7),
      (''F'', Some 0.0),
      (''Pass'', None),
      (''Fail'', Some 0.0)]"

text \<open>\<open>grade_map.get(grade, 0.0)\<close>: the stored value when the key is there, 0.0 otherwise.\<close>

definition get_grade_point :: "string \<Rightarrow> real option" where
  "get_grade_point grade =
     (case map_of grade_map grade of
        Some v \<Rightarrow> v
      | None \<Rightarrow> Some 0.0)"

subsection \<open>calculate_gpa\<close>

text \<open>
  Both sums run over \<open>zip(credits_list, grade_points_list)\<close>, which stops at the end
  of the shorter list, and keep the pairs whose grade point is not \<open>None\<close>. The body
  has no raise and no early error return: every path is \<open>Inr\<close>.
\<close>

definition calculate_gpa :: "real list \<Rightarrow> real option list \<Rightarrow> st_message + real" where
  "calculate_gpa credits_list grade_points_list =
     (let total_grade_points =
            sum_list [c * gp. (c, Some gp) \<leftarrow> zip credits_list grade_points_list];
          total_credits =
            sum_list [c. (c, Some gp) \<leftarrow> zip credits_list grade_points_list]
      in if total_credits = 0 then Inr 0.0
         else Inr (total_grade_points / total_credits))"

subsection \<open>calculate_cumulative_gpa\<close>

definition calculate_cumulative_gpa ::
  "real \<Rightarrow> real \<Rightarrow> real \<Rightarrow> real \<Rightarrow> st_message + real" where
  "calculate_cumulative_gpa current_gpa current_credits new_gpa new_credits =
     (if current_credits < 0 \<or> new_credits < 0 then
        Inl (StError ''Credits cannot be negative.'')
      else
        let current_total_grade_points = current_gpa * current_credits;
            new_total_grade_points = new_gpa * new_credits;
            combined_total_credits = current_credits + new_credits;
            combined_total_grade_points =
              current_total_grade_points + new_total_grade_points
        in if combined_total_credits = 0 then Inr 0.0
           else Inr (combined_total_grade_points / combined_total_credits))"

subsection \<open>The What If Scenario tab\<close>

text \<open>
  The script first reads the known grades (lines 106 to 145): when the radio button
  says that some grades are known and the next semester has credits, the classes with a
  known grade are read, one (credits, GPA) pair per class, into two lists built in
  lockstep; otherwise the three variables keep their defaults. The result is
  (known_credits, known_grade_points, remaining_credits).
\<close>

definition known_grades :: "string \<Rightarrow> real \<Rightarrow> (real \<times> real) list \<Rightarrow> real \<times> real \<times> real" where
  "known_grades scenario_type next_semester_credits known_classes =
     (if scenario_type = ''I know some of my grades'' \<and> next_semester_credits > 0 then
        let known_credits_list = map fst known_classes;
            known_gpa_list = map snd known_classes;
            known_credits = sum_list known_credits_list;
            known_grade_points =
              sum_list [c * g. (c, g) \<leftarrow> zip known_credits_list known_gpa_list];
            remaining_credits = next_semester_credits - known_credits
        in (known_credits, known_grade_points, remaining_credits)
      else (0, 0, next_semester_credits))"

text \<open>
  The handler of the button "Calculate Required Next Semester GPA" (lines 147 to 171),
  as a function of the variables it reads. Its value is \<open>required_gpa_remaining\<close>.
\<close>

definition required_gpa_remaining ::
  "string \<Rightarrow> real \<Rightarrow> real \<Rightarrow> real \<Rightarrow> real \<Rightarrow> real \<Rightarrow> real \<Rightarrow> st_message + real" where
  "required_gpa_remaining scenario_type current_gpa current_credits desired_gpa
       next_semester_credits known_grade_points remaining_credits =
     (if current_credits + next_semester_credits = 0 then
        Inl (StError
          ''Cannot calculate if total credits are zero. Please enter valid credit values.'')
      else if next_semester_credits = 0 then
        Inl (StWarning ''You need to take credits next semester to change your GPA.'')
      else if scenario_type = ''I know some of my grades'' \<and> remaining_credits < 0 then
        Inl (StError
          ''Known credits exceed total next semester credits. Please check your inputs.'')
      else
        let total_credits_after_next = current_credits + next_semester_credits;
            desired_total_grade_points = desired_gpa * total_credits_after_next;
            current_total_grade_points = current_gpa * current_credits
        in if scenario_type = ''I know some of my grades'' then
             let grade_points_needed_remaining =
                   desired_total_grade_points - current_total_grade_points
                     - known_grade_points
             in if remaining_credits > 0 then
                  Inr (grade_points_needed_remaining / remaining_credits)
                else Inr 0.0
           else
             let grade_points_needed_next_semester =
                   desired_total_grade_points - current_total_grade_points
             in if next_semester_credits > 0 then
                  Inr (grade_points_needed_next_semester / next_semester_credits)
                else Inr 0.0)"

text \<open>The tab as a whole: the inputs of the form, then the button.\<close>

definition what_if_scenario ::
  "string \<Rightarrow> real \<Rightarrow> real \<Rightarrow> real \<Rightarrow> real \<Rightarrow> (real \<times> real) list \<Rightarrow> st_message + real" where
  "what_if_scenario scenario_type current_gpa current_credits desired_gpa
       next_semester_credits known_classes =
     (case known_grades scenario_type next_semester_credits known_classes of
        (known_credits, known_grade_points, remaining_credits) \<Rightarrow>
          required_gpa_remaining scenario_type current_gpa current_credits desired_gpa
            next_semester_credits known_grade_points remaining_credits)"

section \<open>The same functions in binary64 arithmetic\<close>

subsection \<open>Rounding\<close>

text \<open>
  A Python float is an IEEE 754 binary64 number. A finite one is a real number
  \<open>m * 2 ^ e\<close> with an integer \<open>m\<close> of at most 53 bits and \<open>e\<close> from -1074 on; it
  is modelled by that real number (so the two zeros are one value, which no comparison
  of the program tells apart). Each of \<open>+\<close>, \<open>-\<close>, \<open>*\<close> and \<open>/\<close> returns the exact
  result rounded to the nearest such number, ties to the even \<open>m\<close>.

  \<open>bit_length n\<close> is the number of binary digits of \<open>n\<close>, and \<open>f64_exponent x\<close> is
  the \<open>e\<close> with \<open>2 ^ e \<le> \<bar>x\<bar> < 2 ^ (e + 1)\<close>, for \<open>x\<close> other than 0.
\<close>

fun bit_length :: "nat \<Rightarrow> nat" where
  "bit_length n = (if n = 0 then 0 else Suc (bit_length (n div 2)))"

declare bit_length.simps [simp del]

definition round_half_even :: "real \<Rightarrow> int" where
  "round_half_even y =
     (let f = \<lfloor>y\<rfloor>; r = y - of_int f
      in if r < 1 / 2 then f
         else if 1 / 2 < r then f + 1
         else if even f then f else f + 1)"

definition f64_exponent :: "real \<Rightarrow> int" where
  "f64_exponent x =
     (if 1 \<le> \<bar>x\<bar> then int (bit_length (nat \<lfloor>\<bar>x\<bar>\<rfloor>)) - 1
      else - int (bit_length (nat (\<lceil>1 / \<bar>x\<bar>\<rceil> - 1))))"

text \<open>
  The distance between neighbouring binary64 numbers around \<open>x\<close>: 52 binary places
  below the leading digit, and \<open>2 ^ -1074\<close> in the subnormal range.
\<close>

definition f64_quantum :: "real \<Rightarrow> real" where
  "f64_quantum x =
     (let e = max (f64_exponent x - 52) (- 1074)
      in if 0 \<le> e then 2 ^ nat e else 1 / 2 ^ nat (- e))"

text \<open>
  \<open>f64_round x\<close> is the binary64 number nearest to \<open>x\<close>. It is \<open>None\<close> when the
  rounded magnitude reaches \<open>2 ^ 1024\<close>: there Python continues with an infinity (or
  raises OverflowError when it converts an int), which this model does not follow. A
  function of the model that meets \<open>None\<close> returns \<open>None\<close>.
\<close>

definition f64_round :: "real \<Rightarrow> real option" where
  "f64_round x =
     (if x = 0 then Some 0
      else let q = f64_quantum x;
               y = of_int (round_half_even (x / q)) * q
           in if \<bar>y\<bar> < 2 ^ 1024 then Some y else None)"

definition f64_add :: "real \<Rightarrow> real \<Rightarrow> real option" where
  "f64_add a b = f64_round (a + b)"

definition f64_sub :: "real \<Rightarrow> real \<Rightarrow> real option" where
  "f64_sub a b = f64_round (a - b)"

definition f64_mul :: "real \<Rightarrow> real \<Rightarrow> real option" where
  "f64_mul a b = f64_round (a * b)"

text \<open>
  Python raises ZeroDivisionError on a division by 0. The program guards each of its
  divisions, so the case is not reached; the model gives it no value.
\<close>

definition f64_div :: "real \<Rightarrow> real \<Rightarrow> real option" where
  "f64_div a b = (if b = 0 then None else f64_round (a / b))"

text \<open>An int that meets a float in an operation is first converted to a float.\<close>

definition f64_of_int :: "int \<Rightarrow> real option" where
  "f64_of_int n = f64_round (of_int n)"

text \<open>
  \<open>sum(xs)\<close> starts from the int 0 and adds the items from left to right, each
  addition rounded. (From Python 3.12 on, \<open>sum\<close> also carries a correction term for
  the rounding errors of floats; on a list of one or two floats the result is the same.)
\<close>

fun f64_sum_from :: "real \<Rightarrow> real option list \<Rightarrow> real option" where
  "f64_sum_from acc [] = Some acc"
| "f64_sum_from acc (x # xs) = do { v \<leftarrow> x; s \<leftarrow> f64_add acc v; f64_sum_from s xs }"

definition f64_sum :: "real option list \<Rightarrow> real option" where
  "f64_sum xs = f64_sum_from 0 xs"

subsection \<open>calculate_gpa, calculate_cumulative_gpa and the What If tab, rounded\<close>

text \<open>
  The same bodies as above, operation for operation and in the order of the source. The
  arguments that are floats in the program are binary64 numbers; the two credit inputs
  of the What If tab are ints (\<open>min_value=0\<close>, \<open>step=1\<close>), their sum is exact, and they
  are converted where they meet a float. The credits of \<open>calculate_cumulative_gpa\<close>
  are taken as floats: the new credits are a float sum, and an int below \<open>2 ^ 53\<close> is
  converted without change.
\<close>

definition calculate_gpa_f64 ::
  "real list \<Rightarrow> real option list \<Rightarrow> (st_message + real) option" where
  "calculate_gpa_f64 credits_list grade_points_list =
     do {
       total_grade_points \<leftarrow>
         f64_sum [f64_mul c gp. (c, Some gp) \<leftarrow> zip credits_list grade_points_list];
       total_credits \<leftarrow>
         f64_sum [Some c. (c, Some gp) \<leftarrow> zip credits_list grade_points_list];
       if total_credits = 0 then Some (Inr 0.0)
       else do {
         gpa \<leftarrow> f64_div total_grade_points total_credits;
         Some (Inr gpa)
       }
     }"

definition calculate_cumulative_gpa_f64 ::
  "real \<Rightarrow> real \<Rightarrow> real \<Rightarrow> real \<Rightarrow> (st_message + real) option" where
  "calculate_cumulative_gpa_f64 current_gpa current_credits new_gpa new_credits =
     (if current_credits < 0 \<or> new_credits < 0 then
        Some (Inl (StError ''Credits cannot be negative.''))
      else do {
        current_total_grade_points \<leftarrow> f64_mul current_gpa current_credits;
        new_total_grade_points \<leftarrow> f64_mul new_gpa new_credits;
        combined_total_credits \<leftarrow> f64_add current_credits new_credits;
        combined_total_grade_points \<leftarrow>
          f64_add current_total_grade_points new_total_grade_points;
        if combined_total_credits = 0 then Some (Inr 0.0)
        else do {
          gpa \<leftarrow> f64_div combined_total_grade_points combined_total_credits;
          Some (Inr gpa)
        }
      })"

definition known_grades_f64 ::
  "string \<Rightarrow> int \<Rightarrow> (real \<times> real) list \<Rightarrow> (real \<times> real \<times> real) option" where
  "known_grades_f64 scenario_type next_semester_credits known_classes =
     (if scenario_type = ''I know some of my grades'' \<and> next_semester_credits > 0 then
        let known_credits_list = map fst known_classes;
            known_gpa_list = map snd known_classes
        in do {
          known_credits \<leftarrow> f64_sum (map Some known_credits_list);
          known_grade_points \<leftarrow>
            f64_sum [f64_mul c g. (c, g) \<leftarrow> zip known_credits_list known_gpa_list];
          next_credits \<leftarrow> f64_of_int next_semester_credits;
          remaining_credits \<leftarrow> f64_sub next_credits known_credits;
          Some (known_credits, known_grade_points, remaining_credits)
        }
      else Some (0, 0, of_int next_semester_credits))"

definition required_gpa_remaining_f64 ::
  "string \<Rightarrow> real \<Rightarrow> int \<Rightarrow> real \<Rightarrow> int \<Rightarrow> real \<Rightarrow> real \<Rightarrow> (st_message + real) option" where
  "required_gpa_remaining_f64 scenario_type current_gpa current_credits desired_gpa
       next_semester_credits known_grade_points remaining_credits =
     (if current_credits + next_semester_credits = 0 then
        Some (Inl (StError
          ''Cannot calculate if total credits are zero. Please enter valid credit values.''))
      else if next_semester_credits = 0 then
        Some (Inl (StWarning ''You need to take credits next semester to change your GPA.''))
      else if scenario_type = ''I know some of my grades'' \<and> remaining_credits < 0 then
        Some (Inl (StError
          ''Known credits exceed total next semester credits. Please check your inputs.''))
      else do {
        total_credits_after_next \<leftarrow> f64_of_int (current_credits + next_semester_credits);
        desired_total_grade_points \<leftarrow> f64_mul desired_gpa total_credits_after_next;
        credits \<leftarrow> f64_of_int current_credits;
        current_total_grade_points \<leftarrow> f64_mul current_gpa credits;
        if scenario_type = ''I know some of my grades'' then do {
          difference \<leftarrow> f64_sub desired_total_grade_points current_total_grade_points;
          grade_points_needed_remaining \<leftarrow> f64_sub difference known_grade_points;
          if remaining_credits > 0 then do {
            required \<leftarrow> f64_div grade_points_needed_remaining remaining_credits;
            Some (Inr required)
          } else Some (Inr 0.0)
        } else do {
          grade_points_needed_next_semester \<leftarrow>
            f64_sub desired_total_grade_points current_total_grade_points;
          if next_semester_credits > 0 then do {
            next_credits \<leftarrow> f64_of_int next_semester_credits;
            required \<leftarrow> f64_div grade_points_needed_next_semester next_credits;
            Some (Inr required)
          } else Some (Inr 0.0)
        }
      })"

definition what_if_scenario_f64 ::
  "string \<Rightarrow> real \<Rightarrow> int \<Rightarrow> real \<Rightarrow> int \<Rightarrow> (real \<times> real) list \<Rightarrow> (st_message + real) option" where
  "what_if_scenario_f64 scenario_type current_gpa current_credits desired_gpa
       next_semester_credits known_classes =
     do {
       (known_credits, known_grade_points, remaining_credits) \<leftarrow>
         known_grades_f64 scenario_type next_semester_credits known_classes;
       required_gpa_remaining_f64 scenario_type current_gpa current_credits desired_gpa
         next_semester_credits known_grade_points remaining_credits
     }"

section \<open>Properties\<close>

subsection \<open>The grade table\<close>

text \<open>
  C4. For every grade symbol, \<open>get_grade_point\<close> returns the value of the fixed table
  (A+ and A give 4.0, A- 3.7, B+ 3.3, B 3.0, B- 2.7, C+ 2.3, C 2.0, C- 1.7, D+ 1.3,
  D 1.0, D- 0.7, F 0.0, Fail 0.0, and Pass gives \<open>None\<close>, the excluded marker), and
  for every symbol that is not in the table it returns 0.0; the function is total, no
  path of it raises.
\<close>

theorem get_grade_point_table:
  "get_grade_point ''A+'' = Some 4.0 \<and> get_grade_point ''A'' = Some 4.0 \<and>
   get_grade_point ''A-'' = Some 3.7 \<and> get_grade_point ''B+'' = Some 3.3 \<and>
   get_grade_point ''B'' = Some 3.0 \<and> get_grade_point ''B-'' = Some 2.7 \<and>
   get_grade_point ''C+'' = Some 2.3 \<and> get_grade_point ''C'' = Some 2.0 \<and>
   get_grade_point ''C-'' = Some 1.7 \<and> get_grade_point ''D+'' = Some 1.3 \<and>
   get_grade_point ''D'' = Some 1.0 \<and> get_grade_point ''D-'' = Some 0.7 \<and>
   get_grade_point ''F'' = Some 0.0 \<and> get_grade_point ''Fail'' = Some 0.0 \<and>
   get_grade_point ''Pass'' = None \<and>
   (grade \<notin> {''A+'', ''A'', ''A-'', ''B+'', ''B'', ''B-'', ''C+'', ''C'', ''C-'',
              ''D+'', ''D'', ''D-'', ''F'', ''Pass'', ''Fail''}
      \<longrightarrow> get_grade_point grade = Some 0.0)"
  by (simp add: get_grade_point_def grade_map_def)

theorem get_grade_point_table_witness:
  "''E'' \<notin> {''A+'', ''A'', ''A-'', ''B+'', ''B'', ''B-'', ''C+'', ''C'', ''C-'',
              ''D+'', ''D'', ''D-'', ''F'', ''Pass'', ''Fail''}
   \<and> get_grade_point ''E'' = Some 0.0 \<and> get_grade_point ''Pass'' = None"
  using get_grade_point_table [of "''E''"] by simp

subsection \<open>The cumulative GPA\<close>

text \<open>
  C3. For all non-negative prior and new credits, \<open>calculate_cumulative_gpa\<close> returns
  (prior GPA * prior credits + new GPA * new credits) / (prior credits + new credits),
  and returns 0.0 when the two credits add up to 0; in particular
  \<open>calculate_cumulative_gpa(3.0, 60, 4.0, 15)\<close> is 3.2.
\<close>

theorem calculate_cumulative_gpa_formula:
  assumes "0 \<le> current_credits" and "0 \<le> new_credits"
  shows "calculate_cumulative_gpa current_gpa current_credits new_gpa new_credits =
           (if current_credits + new_credits = 0 then Inr 0.0
            else Inr ((current_gpa * current_credits + new_gpa * new_credits)
                        / (current_credits + new_credits)))
         \<and> calculate_cumulative_gpa 3.0 60 4.0 15 = Inr 3.2"
  using assms by (simp add: calculate_cumulative_gpa_def Let_def)

theorem calculate_cumulative_gpa_formula_witness:
  "(0::real) \<le> 45 \<and> (0::real) \<le> 15 \<and> calculate_cumulative_gpa 2.0 45 4.0 15 = Inr 2.5
   \<and> calculate_cumulative_gpa 1.5 0 2.5 0 = Inr 0.0"
  using calculate_cumulative_gpa_formula [of 45 15 "2.0" "4.0"]
        calculate_cumulative_gpa_formula [of 0 0 "1.5" "2.5"]
  by simp

text \<open>
  C6. Whenever the prior credits or the new credits are negative,
  \<open>calculate_cumulative_gpa\<close> fails: it reports the error "Credits cannot be negative."
  and returns no number; in particular \<open>calculate_cumulative_gpa(3.0, -5, 3.5, 10)\<close>
  fails so.
\<close>

theorem calculate_cumulative_gpa_negative:
  "(current_credits < 0 \<or> new_credits < 0 \<longrightarrow>
      calculate_cumulative_gpa current_gpa current_credits new_gpa new_credits =
        Inl (StError ''Credits cannot be negative.''))
   \<and> calculate_cumulative_gpa 3.0 (- 5) 3.5 10 = Inl (StError ''Credits cannot be negative.'')"
  by (simp add: calculate_cumulative_gpa_def)

theorem calculate_cumulative_gpa_negative_witness:
  "((2::real) < 0 \<or> (- 1::real) < 0) \<and>
   calculate_cumulative_gpa 3.0 2 3.5 (- 1) = Inl (StError ''Credits cannot be negative.'')"
  using calculate_cumulative_gpa_negative [of 2 "- 1" "3.0" "3.5"] by simp

subsection \<open>Binary64 values of the spec's example\<close>

text \<open>
  The float written 3.8 is 4278419646001971 / 2 ^ 50, a little below 3.8. One class of
  6 credits at that grade has the grade points 22.799999999999997 and, by
  \<open>calculate_gpa\<close>, the GPA 3.7999999999999994.
\<close>

lemmas f64_eval =
  f64_round_def f64_quantum_def f64_exponent_def round_half_even_def bit_length.simps
  f64_add_def f64_sub_def f64_mul_def f64_div_def f64_of_int_def f64_sum_def Let_def

lemma f64_literal_3_8:
  "f64_round 3.8 = Some (4278419646001971 / 1125899906842624)"
  by (simp add: f64_eval)

lemma calculate_gpa_f64_one_class:
  "calculate_gpa_f64 [6] [Some (4278419646001971 / 1125899906842624)] =
     Some (Inr (8556839292003941 / 2251799813685248))"
  by (simp add: calculate_gpa_f64_def f64_eval)

lemma calculate_gpa_f64_no_credits:
  "calculate_gpa_f64 [0] [Some 3.0] = Some (Inr 0.0)"
  by (simp add: calculate_gpa_f64_def f64_eval)

lemma calculate_cumulative_gpa_f64_example:
  "calculate_cumulative_gpa_f64 3.0 60 (8556839292003941 / 2251799813685248) 6 =
     Some (Inr (6919166700232853 / 2251799813685248))"
  by (simp add: calculate_cumulative_gpa_f64_def f64_eval)

lemma known_grades_f64_example:
  "known_grades_f64 ''I know some of my grades'' 15
       [(6, 4278419646001971 / 1125899906842624)] =
     Some (6, 1604407367250739 / 70368744177664, 9)"
  by (simp add: known_grades_f64_def f64_eval)

lemma what_if_scenario_f64_known:
  "what_if_scenario_f64 ''I know some of my grades'' 3.0 60 3.5 15
       [(6, 4278419646001971 / 1125899906842624)] =
     Some (Inr (7468469382056073 / 1125899906842624))"
  by (simp add: what_if_scenario_f64_def known_grades_f64_example
        required_gpa_remaining_f64_def f64_eval)

lemma what_if_scenario_f64_combined:
  "what_if_scenario_f64 ''I haven't gotten any grades yet''
       (6919166700232853 / 2251799813685248) (60 + 6) 3.5 (15 - 6) [] =
     Some (Inr (7468469382056071 / 1125899906842624))"
  by (simp add: what_if_scenario_f64_def known_grades_f64_def
        required_gpa_remaining_f64_def f64_eval)

subsection \<open>The weighted average\<close>

text \<open>
  The two sums of \<open>calculate_gpa\<close>, read by position: the generator with the pattern
  \<open>(c, Some gp)\<close> keeps exactly the positions below both lengths whose grade point
  is not \<open>None\<close>.
\<close>

lemma comp_as_map:
  "sum_list [f c gp. (c, Some gp) \<leftarrow> zs] =
   sum_list (map (\<lambda>(c, gp). case gp of None \<Rightarrow> (0::real) | Some g \<Rightarrow> f c g) zs)"
  by (induction zs) (auto split: option.splits)

lemma sum_list_zip_index:
  "sum_list (map (\<lambda>(c, gp). case gp of None \<Rightarrow> (0::real) | Some g \<Rightarrow> f c g) (zip cs gps)) =
   (\<Sum>i \<in> {i. i < min (length cs) (length gps) \<and> gps ! i \<noteq> None}. f (cs ! i) (the (gps ! i)))"
proof -
  let ?n = "min (length cs) (length gps)"
  let ?h = "\<lambda>(c, gp). case gp of None \<Rightarrow> (0::real) | Some g \<Rightarrow> f c g"
  have "sum_list (map ?h (zip cs gps)) = (\<Sum>i = 0..<?n. ?h (zip cs gps ! i))"
    by (simp add: sum_list_sum_nth)
  also have "\<dots> = (\<Sum>i = 0..<?n. if gps ! i \<noteq> None then f (cs ! i) (the (gps ! i)) else 0)"
    by (rule sum.cong) (auto split: option.splits)
  also have "\<dots> = (\<Sum>i \<in> {i \<in> {0..<?n}. gps ! i \<noteq> None}. f (cs ! i) (the (gps ! i)))"
    by (rule sum.inter_filter [symmetric]) simp
  also have "{i \<in> {0..<?n}. gps ! i \<noteq> None} = {i. i < ?n \<and> gps ! i \<noteq> None}"
    by auto
  finally show ?thesis .
qed

lemma counted_sum:
  "sum_list [f c gp :: real. (c, Some gp) \<leftarrow> zip cs gps] =
   (\<Sum>i \<in> {i. i < min (length cs) (length gps) \<and> gps ! i \<noteq> None}. f (cs ! i) (the (gps ! i)))"
  by (rule trans [OF comp_as_map sum_list_zip_index])

text \<open>
  C1. For lists of credits and grade points of equal length, \<open>calculate_gpa\<close> leaves
  every pair whose grade point is the excluded marker \<open>None\<close> out of the numerator
  and out of the denominator; it returns exactly 0.0 when the sum of the credits that
  count is 0 (so also for empty lists), and otherwise the sum of credit * point over the
  pairs that count divided by the sum of their credits.
\<close>

theorem calculate_gpa_weighted_average:
  assumes "length credits_list = length grade_points_list"
  shows "calculate_gpa credits_list grade_points_list =
           (let counted = {i. i < length credits_list \<and> grade_points_list ! i \<noteq> None};
                numerator = (\<Sum>i\<in>counted. credits_list ! i * the (grade_points_list ! i));
                denominator = (\<Sum>i\<in>counted. credits_list ! i)
            in if denominator = 0 then Inr 0.0 else Inr (numerator / denominator))
         \<and> calculate_gpa [] [] = Inr 0.0"
proof -
  have n: "sum_list [c * gp. (c, Some gp) \<leftarrow> zip credits_list grade_points_list] =
      (\<Sum>i\<in>{i. i < length credits_list \<and> grade_points_list ! i \<noteq> None}.
          credits_list ! i * the (grade_points_list ! i))"
    using assms counted_sum [of "\<lambda>c gp. c * gp" credits_list grade_points_list] by simp
  have d: "sum_list [c. (c, Some gp) \<leftarrow> zip credits_list grade_points_list] =
      (\<Sum>i\<in>{i. i < length credits_list \<and> grade_points_list ! i \<noteq> None}. credits_list ! i)"
    using assms counted_sum [of "\<lambda>c gp. c" credits_list grade_points_list] by simp
  have e: "calculate_gpa [] [] = Inr 0.0"
    by (simp add: calculate_gpa_def)
  show ?thesis
    unfolding calculate_gpa_def Let_def n d using e by simp
qed

theorem calculate_gpa_weighted_average_witness:
  "length [3, 4, 2 :: real] = length [Some 4.0, None, Some (3.0 :: real)]
   \<and> calculate_gpa [3, 4, 2] [Some 4.0, None, Some 3.0] = Inr ((3 * 4.0 + 2 * 3.0) / (3 + 2))"
proof -
  have s: "{i. i < length [3, 4, 2 :: real] \<and> [Some 4.0, None, Some (3.0 :: real)] ! i \<noteq> None} = {0, 2}"
    by (auto simp: nth_Cons' less_Suc_eq numeral_3_eq_3)
  show ?thesis
    using calculate_gpa_weighted_average [of "[3, 4, 2]" "[Some 4.0, None, Some 3.0]"]
    unfolding Let_def s by simp
qed

lemma zip_take_min:
  "zip (take (min (length cs) (length gps)) cs) (take (min (length cs) (length gps)) gps) = zip cs gps"
  by (simp add: take_zip [symmetric])

text \<open>
  C7, as the code has it. The claim is that lists of unequal length are rejected with a
  failure. \<open>calculate_gpa\<close> has no check of the lengths: \<open>zip\<close> stops at the end of
  the shorter list, so the call returns a number, the GPA of the pairs up to the length
  of the shorter list, and the surplus entries of the longer list are ignored.
\<close>

theorem calculate_gpa_unequal_lengths:
  assumes "length credits_list \<noteq> length grade_points_list"
  shows "(\<exists>gpa. calculate_gpa credits_list grade_points_list = Inr gpa) \<and>
         calculate_gpa credits_list grade_points_list =
           calculate_gpa (take (min (length credits_list) (length grade_points_list)) credits_list)
                         (take (min (length credits_list) (length grade_points_list)) grade_points_list)"
  by (simp add: calculate_gpa_def Let_def zip_take_min)

theorem calculate_gpa_unequal_lengths_counterexample:
  "length [3, 4 :: real] \<noteq> length [Some (4.0 :: real)] \<and> calculate_gpa [3, 4] [Some 4.0] = Inr 4.0"
  by (simp add: calculate_gpa_def)

theorem calculate_gpa_unequal_lengths_witness:
  "length [3, 4 :: real] \<noteq> length [Some (4.0 :: real)] \<and>
   calculate_gpa [3, 4] [Some 4.0] = calculate_gpa [3] [Some 4.0] \<and>
   (\<exists>gpa. calculate_gpa [3, 4] [Some 4.0] = Inr gpa)"
proof -
  have h: "length [3, 4 :: real] \<noteq> length [Some (4.0 :: real)]"
    by simp
  have t: "take (min (length [3, 4 :: real]) (length [Some (4.0 :: real)])) [3, 4 :: real] = [3]"
    "take (min (length [3, 4 :: real]) (length [Some (4.0 :: real)])) [Some (4.0 :: real)] = [Some 4.0]"
    by simp_all
  from calculate_gpa_unequal_lengths [OF h] show ?thesis
    unfolding t using h by blast
qed

lemma weighted_bounds:
  assumes "\<forall>(c, p) \<in> set zs. (0::real) \<le> c \<and> lo \<le> p \<and> p \<le> hi"
  shows "lo * sum_list (map fst zs) \<le> sum_list (map (\<lambda>(c, p). c * p) zs) \<and>
         sum_list (map (\<lambda>(c, p). c * p) zs) \<le> hi * sum_list (map fst zs)"
  using assms
proof (induction zs)
  case Nil
  then show ?case by simp
next
  case (Cons z zs)
  obtain c p where z: "z = (c, p)" by (cases z)
  from Cons.prems z have c: "0 \<le> c" "lo \<le> p" "p \<le> hi" by auto
  have 1: "lo * c \<le> c * p" using c by (simp add: mult.commute mult_left_mono)
  have 2: "c * p \<le> hi * c" using c by (simp add: mult.commute mult_left_mono)
  from Cons have ih: "lo * sum_list (map fst zs) \<le> sum_list (map (\<lambda>(c, p). c * p) zs)"
      "sum_list (map (\<lambda>(c, p). c * p) zs) \<le> hi * sum_list (map fst zs)" by auto
  show ?case using 1 2 ih by (simp add: z distrib_left)
qed

lemma no_excluded_sums:
  "sum_list [f c gp. (c, Some gp) \<leftarrow> zip cs (map Some ps)] =
   sum_list (map (\<lambda>(c, p). f c p) (zip cs ps) :: real list)"
  by (simp add: comp_as_map zip_map2 o_def split_def)

text \<open>
  C9, as the code has it. In exact arithmetic, with all credits non-negative, no
  excluded entry (the grade points are \<open>map Some points\<close>) and equal lengths, the
  result lies between the least and the greatest grade point, provided the credits add
  up to more than 0. Without the proviso the guard of the division returns 0.0, which
  can lie below every grade point: credits [0] with points [3.0] give 0.0, in exact and
  in binary64 arithmetic alike. And the bounds are bounds of the exact quotient only: in
  binary64 arithmetic the product and the quotient are rounded, and credits [6] with
  points [3.8] give 3.7999999999999994, below the only grade point.
\<close>

theorem calculate_gpa_between_min_max:
  assumes "length credits_list = length points"
    and "\<forall>c \<in> set credits_list. 0 \<le> c"
    and "0 < sum_list credits_list"
  shows "\<exists>gpa. calculate_gpa credits_list (map Some points) = Inr gpa \<and>
           Min (set points) \<le> gpa \<and> gpa \<le> Max (set points)"
proof -
  let ?zs = "zip credits_list points"
  let ?N = "sum_list (map (\<lambda>(c, p). c * p) ?zs)"
  let ?D = "sum_list credits_list"
  have fst: "map fst ?zs = credits_list"
    using assms(1) by simp
  have "\<forall>(c, p) \<in> set ?zs. 0 \<le> c \<and> Min (set points) \<le> p \<and> p \<le> Max (set points)"
    using assms(2) by (auto dest: set_zip_leftD set_zip_rightD)
  from weighted_bounds [OF this] fst
  have b: "Min (set points) * ?D \<le> ?N" "?N \<le> Max (set points) * ?D"
    by simp_all
  have n: "sum_list [c * gp. (c, Some gp) \<leftarrow> zip credits_list (map Some points)] = ?N"
    by (rule no_excluded_sums)
  have d: "sum_list [c. (c, Some gp) \<leftarrow> zip credits_list (map Some points)] = ?D"
    using no_excluded_sums [of "\<lambda>c p. c" credits_list points] fst
    by (simp add: split_def)
  have v: "calculate_gpa credits_list (map Some points) = Inr (?N / ?D)"
    unfolding calculate_gpa_def Let_def n d using assms(3) by simp
  have "Min (set points) \<le> ?N / ?D" "?N / ?D \<le> Max (set points)"
    using b assms(3) by (simp_all add: pos_le_divide_eq pos_divide_le_eq)
  with v show ?thesis by blast
qed

theorem calculate_gpa_between_min_max_counterexample:
  "length [0 :: real] = length (map Some [3.0 :: real]) \<and> (0::real) \<le> 0
   \<and> calculate_gpa [0] (map Some [3.0]) = Inr 0.0 \<and> (0::real) < Min (set [3.0])
   \<and> calculate_gpa_f64 [0] [Some 3.0] = Some (Inr 0.0)
   \<and> f64_round 3.8 = Some (4278419646001971 / 1125899906842624)
   \<and> (0::real) \<le> 6
   \<and> calculate_gpa_f64 [6] [Some (4278419646001971 / 1125899906842624)] =
       Some (Inr (8556839292003941 / 2251799813685248))
   \<and> (8556839292003941 / 2251799813685248 :: real)
       < Min (set [4278419646001971 / 1125899906842624])"
  using f64_literal_3_8 calculate_gpa_f64_one_class calculate_gpa_f64_no_credits
  by (simp add: calculate_gpa_def)

theorem calculate_gpa_between_min_max_witness:
  "length [3, 1 :: real] = length [4.0, 2.0 :: real] \<and> (0::real) \<le> 3 \<and> (0::real) \<le> 1 \<and>
   0 < sum_list [3, 1 :: real] \<and>
   (\<exists>gpa. calculate_gpa [3, 1] (map Some [4.0, 2.0]) = Inr gpa \<and> 2.0 \<le> gpa \<and> gpa \<le> 4.0)"
  using calculate_gpa_between_min_max [of "[3, 1]" "[4.0, 2.0]"] by simp

subsection \<open>The required GPA\<close>

lemma known_grades_no:
  "scenario_type \<noteq> ''I know some of my grades'' \<Longrightarrow>
   known_grades scenario_type next_semester_credits known_classes = (0, 0, next_semester_credits)"
  by (simp add: known_grades_def)

lemma known_grades_some:
  "0 < next_semester_credits \<Longrightarrow>
   known_grades ''I know some of my grades'' next_semester_credits known_classes =
     (sum_list (map fst known_classes),
      sum_list (map (\<lambda>(c, g). c * g) known_classes),
      next_semester_credits - sum_list (map fst known_classes))"
  by (simp add: known_grades_def Let_def zip_map_fst_snd split_def)

lemma known_grades_remaining:
  "known_grades scenario_type next_semester_credits known_classes =
     (known_credits, known_grade_points, remaining_credits) \<Longrightarrow>
   remaining_credits = next_semester_credits - known_credits"
  by (auto simp: known_grades_def Let_def split: if_splits)

text \<open>
  C2. For valid input (current credits not negative) with a positive denominator, the
  What If handler yields exactly
  (desired GPA * (current credits + next credits) - current GPA * current credits)
  / next credits when no grade is known, and
  (desired GPA * (current credits + next credits) - current GPA * current credits
   - known grade points) / (next credits - known credits) when some grades are known.
  The value is not clamped to the range from 0 to 4: 5.5 and -1 are results.
\<close>

theorem required_gpa_formula:
  assumes "known_grades scenario_type next_semester_credits known_classes =
             (known_credits, known_grade_points, remaining_credits)"
    and "0 \<le> current_credits"
  shows "(scenario_type \<noteq> ''I know some of my grades'' \<and> 0 < next_semester_credits \<longrightarrow>
            what_if_scenario scenario_type current_gpa current_credits desired_gpa
                next_semester_credits known_classes =
              Inr ((desired_gpa * (current_credits + next_semester_credits)
                      - current_gpa * current_credits) / next_semester_credits))
       \<and> (scenario_type = ''I know some of my grades'' \<and>
            0 < next_semester_credits - known_credits \<longrightarrow>
            what_if_scenario scenario_type current_gpa current_credits desired_gpa
                next_semester_credits known_classes =
              Inr ((desired_gpa * (current_credits + next_semester_credits)
                      - current_gpa * current_credits - known_grade_points)
                     / (next_semester_credits - known_credits)))
       \<and> what_if_scenario ''I haven't gotten any grades yet'' 3.0 60 3.5 15 [] = Inr 5.5
       \<and> what_if_scenario ''I haven't gotten any grades yet'' 4.0 60 3.0 15 [] = Inr (- 1)"
proof -
  have r: "remaining_credits = next_semester_credits - known_credits"
    using assms(1) by (rule known_grades_remaining)
  have a: "scenario_type \<noteq> ''I know some of my grades'' \<and> 0 < next_semester_credits \<longrightarrow>
            what_if_scenario scenario_type current_gpa current_credits desired_gpa
                next_semester_credits known_classes =
              Inr ((desired_gpa * (current_credits + next_semester_credits)
                      - current_gpa * current_credits) / next_semester_credits)"
    using assms(2)
    by (simp add: what_if_scenario_def known_grades_no required_gpa_remaining_def Let_def)
  have b: "scenario_type = ''I know some of my grades'' \<and>
            0 < next_semester_credits - known_credits \<longrightarrow>
            what_if_scenario scenario_type current_gpa current_credits desired_gpa
                next_semester_credits known_classes =
              Inr ((desired_gpa * (current_credits + next_semester_credits)
                      - current_gpa * current_credits - known_grade_points)
                     / (next_semester_credits - known_credits))"
  proof (intro impI, elim conjE)
    assume k: "scenario_type = ''I know some of my grades''"
      and p: "0 < next_semester_credits - known_credits"
    have "0 < next_semester_credits"
      using assms(1) p k by (auto simp: known_grades_def split: if_splits)
    then show "what_if_scenario scenario_type current_gpa current_credits desired_gpa
                next_semester_credits known_classes =
              Inr ((desired_gpa * (current_credits + next_semester_credits)
                      - current_gpa * current_credits - known_grade_points)
                     / (next_semester_credits - known_credits))"
      using assms p k r
      by (simp add: what_if_scenario_def required_gpa_remaining_def Let_def)
  qed
  have c: "what_if_scenario ''I haven't gotten any grades yet'' 3.0 60 3.5 15 [] = Inr 5.5"
    by (simp add: what_if_scenario_def known_grades_def required_gpa_remaining_def Let_def)
  have d: "what_if_scenario ''I haven't gotten any grades yet'' 4.0 60 3.0 15 [] = Inr (- 1)"
    by (simp add: what_if_scenario_def known_grades_def required_gpa_remaining_def Let_def)
  from a b c d show ?thesis by blast
qed

theorem required_gpa_formula_witness:
  "known_grades ''I know some of my grades'' 15 [(6, 3.8)] = (6, 6 * 3.8, 9)
   \<and> known_grades ''I haven't gotten any grades yet'' 15 [] = (0, 0, 15)
   \<and> (0::real) \<le> 60 \<and> (0::real) < 15 - 6
   \<and> ''I haven't gotten any grades yet'' \<noteq> ''I know some of my grades''
   \<and> what_if_scenario ''I know some of my grades'' 3.0 60 3.5 15 [(6, 3.8)] =
        Inr ((3.5 * (60 + 15) - 3.0 * 60 - 6 * 3.8) / (15 - 6))
   \<and> what_if_scenario ''I haven't gotten any grades yet'' 3.0 60 3.2 15 [] = Inr 4.0"
proof -
  have k: "known_grades ''I know some of my grades'' 15 [(6, 3.8)] = (6, 6 * 3.8, 9)"
    by (simp add: known_grades_def)
  have n: "known_grades ''I haven't gotten any grades yet'' 15 [] = (0, 0, 15)"
    by (simp add: known_grades_def)
  have c: "(0::real) \<le> 60"
    by simp
  from required_gpa_formula [OF k c, of "3.0" "3.5"] required_gpa_formula [OF n c, of "3.0" "3.2"] k n
  show ?thesis
    by simp
qed

lemma known_grades_not_read:
  "known_grades scenario_type next_semester_credits known_classes =
     (known_credits, known_grade_points, remaining_credits) \<Longrightarrow>
   \<not> 0 < next_semester_credits \<Longrightarrow> known_credits = 0"
  by (auto simp: known_grades_def Let_def split: if_splits)

text \<open>
  C5, as the code has it. The handler fails with an error message and no value when
  current credits + next credits is 0, and when next credits - known credits is
  negative with some grades known. When the next credits are 0 and the current credits
  are not, an explicit guard shows a warning and computes no value, whether or not
  grades are known: the result is not 0.0 there. When some grades are known and the
  remaining credits are exactly 0, with next credits and the credit total not 0, the
  result is 0.0.
\<close>

theorem required_gpa_failures:
  assumes "known_grades scenario_type next_semester_credits known_classes =
             (known_credits, known_grade_points, remaining_credits)"
  shows "(current_credits + next_semester_credits = 0 \<longrightarrow>
            what_if_scenario scenario_type current_gpa current_credits desired_gpa
                next_semester_credits known_classes =
              Inl (StError
                ''Cannot calculate if total credits are zero. Please enter valid credit values.''))
       \<and> (scenario_type = ''I know some of my grades'' \<and>
            next_semester_credits - known_credits < 0 \<longrightarrow>
            (\<exists>m. what_if_scenario scenario_type current_gpa current_credits desired_gpa
                   next_semester_credits known_classes = Inl (StError m)))
       \<and> (next_semester_credits = 0 \<and> current_credits \<noteq> 0 \<longrightarrow>
            what_if_scenario scenario_type current_gpa current_credits desired_gpa
                next_semester_credits known_classes =
              Inl (StWarning ''You need to take credits next semester to change your GPA.''))
       \<and> (scenario_type = ''I know some of my grades'' \<and>
            next_semester_credits - known_credits = 0 \<and> next_semester_credits \<noteq> 0 \<and>
            current_credits + next_semester_credits \<noteq> 0 \<longrightarrow>
            what_if_scenario scenario_type current_gpa current_credits desired_gpa
                next_semester_credits known_classes = Inr 0.0)"
proof -
  have r: "remaining_credits = next_semester_credits - known_credits"
    using assms by (rule known_grades_remaining)
  have w: "what_if_scenario scenario_type current_gpa current_credits desired_gpa
              next_semester_credits known_classes =
           required_gpa_remaining scenario_type current_gpa current_credits desired_gpa
              next_semester_credits known_grade_points (next_semester_credits - known_credits)"
    using assms r by (simp add: what_if_scenario_def)
  have z: "next_semester_credits = 0 \<longrightarrow> known_credits = 0"
    using known_grades_not_read [OF assms] by simp
  show ?thesis
    unfolding w using z by (auto simp: required_gpa_remaining_def Let_def)
qed

theorem required_gpa_failures_counterexample:
  "what_if_scenario ''I haven't gotten any grades yet'' 3.0 60 3.5 0 [] =
     Inl (StWarning ''You need to take credits next semester to change your GPA.'')
   \<and> what_if_scenario ''I haven't gotten any grades yet'' 3.0 60 3.5 0 [] \<noteq> Inr 0.0"
  by (simp add: what_if_scenario_def known_grades_def required_gpa_remaining_def)

theorem required_gpa_failures_witness:
  "known_grades ''I know some of my grades'' 15 [(16, 3.8)] = (16, 16 * 3.8, - 1)
   \<and> (15::real) - 16 < 0
   \<and> (\<exists>m. what_if_scenario ''I know some of my grades'' 3.0 60 3.5 15 [(16, 3.8)] =
            Inl (StError m))
   \<and> known_grades ''I know some of my grades'' 15 [(15, 3.8)] = (15, 15 * 3.8, 0)
   \<and> what_if_scenario ''I know some of my grades'' 3.0 60 3.5 15 [(15, 3.8)] = Inr 0.0
   \<and> known_grades ''I haven't gotten any grades yet'' 0 [] = (0, 0, 0)
   \<and> what_if_scenario ''I haven't gotten any grades yet'' 3.0 0 3.5 0 [] =
       Inl (StError
         ''Cannot calculate if total credits are zero. Please enter valid credit values.'')
   \<and> what_if_scenario ''I haven't gotten any grades yet'' 3.0 60 3.5 0 [] =
       Inl (StWarning ''You need to take credits next semester to change your GPA.'')"
proof -
  have a: "known_grades ''I know some of my grades'' 15 [(16, 3.8)] = (16, 16 * 3.8, - 1)"
    by (simp add: known_grades_def)
  have b: "known_grades ''I know some of my grades'' 15 [(15, 3.8)] = (15, 15 * 3.8, 0)"
    by (simp add: known_grades_def)
  have c: "known_grades ''I haven't gotten any grades yet'' 0 [] = (0, 0, 0)"
    by (simp add: known_grades_def)
  from required_gpa_failures [OF a, of 60 "3.0" "3.5"]
       required_gpa_failures [OF b, of 60 "3.0" "3.5"]
       required_gpa_failures [OF c, of 0 "3.0" "3.5"]
       required_gpa_failures [OF c, of 60 "3.0" "3.5"]
       a b c
  show ?thesis
    by simp
qed

subsection \<open>The required GPA and the cumulative GPA together\<close>

text \<open>
  C10. For every current GPA, current credits not negative, every desired GPA and next
  credits above 0: when no grade is known the handler yields a required GPA, and a
  semester of the next credits at exactly that GPA, combined with the current standing
  by \<open>calculate_cumulative_gpa\<close>, gives exactly the desired GPA.
\<close>

theorem required_then_combined_is_desired:
  assumes "0 \<le> current_credits"
    and "0 < next_semester_credits"
    and "scenario_type \<noteq> ''I know some of my grades''"
  shows "\<exists>required. what_if_scenario scenario_type current_gpa current_credits desired_gpa
                       next_semester_credits known_classes = Inr required
           \<and> calculate_cumulative_gpa current_gpa current_credits required
                 next_semester_credits = Inr desired_gpa"
proof -
  let ?r = "(desired_gpa * (current_credits + next_semester_credits)
               - current_gpa * current_credits) / next_semester_credits"
  have pos: "current_credits + next_semester_credits \<noteq> 0"
    using assms(1,2) by simp
  have 1: "what_if_scenario scenario_type current_gpa current_credits desired_gpa
             next_semester_credits known_classes = Inr ?r"
    using assms pos
    by (simp add: what_if_scenario_def known_grades_no required_gpa_remaining_def Let_def)
  have "current_gpa * current_credits + ?r * next_semester_credits =
          desired_gpa * (current_credits + next_semester_credits)"
    using assms(2) by simp
  then have "(current_gpa * current_credits + ?r * next_semester_credits)
               / (current_credits + next_semester_credits) = desired_gpa"
    using pos by simp
  then have 2: "calculate_cumulative_gpa current_gpa current_credits ?r next_semester_credits =
          Inr desired_gpa"
    using assms(1,2) pos by (simp add: calculate_cumulative_gpa_def Let_def)
  from 1 2 show ?thesis by blast
qed

theorem required_then_combined_is_desired_witness:
  "(0::real) \<le> 60 \<and> (0::real) < 15
   \<and> ''I haven't gotten any grades yet'' \<noteq> ''I know some of my grades''
   \<and> (\<exists>required. what_if_scenario ''I haven't gotten any grades yet'' 3.0 60 3.5 15 [] = Inr required
         \<and> calculate_cumulative_gpa 3.0 60 required 15 = Inr 3.5)"
proof -
  have h: "(0::real) \<le> 60" "(0::real) < 15"
    "''I haven't gotten any grades yet'' \<noteq> ''I know some of my grades''"
    by simp_all
  from required_then_combined_is_desired [OF h, of "3.0" "3.5" "[]"] h show ?thesis
    by blast
qed

lemma sum_list_all_zero:
  "\<forall>x \<in> set xs. f x = (0::real) \<Longrightarrow> sum_list (map f xs) = 0"
  by (induction xs) auto

lemma no_credits_no_grade_points:
  assumes "\<forall>c \<in> set (map fst known_classes). (0::real) \<le> c"
    and "sum_list (map fst known_classes) = 0"
  shows "sum_list (map (\<lambda>(c, g). c * g) known_classes) = (0::real)"
proof -
  have "\<forall>c \<in> set (map fst known_classes). c = 0"
    using assms sum_list_nonneg_eq_0_iff [of "map fst known_classes"] by blast
  then have "\<forall>x \<in> set known_classes. (\<lambda>(c, g). c * g) x = 0"
    by auto
  then show ?thesis
    by (rule sum_list_all_zero)
qed

lemma calculate_gpa_known_classes:
  "calculate_gpa (map fst known_classes) (map (Some \<circ> snd) known_classes) =
     (if sum_list (map fst known_classes) = 0 then Inr 0
      else Inr (sum_list (map (\<lambda>(c, g). c * g) known_classes)
                  / sum_list (map fst known_classes)))"
proof -
  have m: "map (Some \<circ> snd) known_classes = map Some (map snd known_classes)"
    by simp
  have n: "sum_list [c * gp. (c, Some gp) \<leftarrow> zip (map fst known_classes) (map Some (map snd known_classes))]
             = sum_list (map (\<lambda>(c, g). c * g) known_classes)"
    using no_excluded_sums [of "\<lambda>c g. c * g" "map fst known_classes" "map snd known_classes"]
    by (simp add: zip_map_fst_snd)
  have d: "sum_list [c. (c, Some gp) \<leftarrow> zip (map fst known_classes) (map Some (map snd known_classes))]
             = sum_list (map fst known_classes)"
    using no_excluded_sums [of "\<lambda>c g. c" "map fst known_classes" "map snd known_classes"]
    by (simp add: zip_map_fst_snd split_def)
  show ?thesis
    unfolding calculate_gpa_def Let_def m n d by simp
qed

text \<open>
  C8, as the code has it. In exact arithmetic, with some grades known, known credits
  between 0 and the next credits and remaining credits above 0, the required GPA is the
  one obtained with no grade known from the standing that already contains the known
  classes: the GPA of the known classes (\<open>calculate_gpa\<close>) is combined with the
  current standing (\<open>calculate_cumulative_gpa\<close>), the credits are current credits +
  known credits, and the next credits are next credits - known credits. The credits of
  the current standing and of each known class are not negative, as the number inputs of
  the form give them. In binary64 arithmetic the two computations round differently and
  their results are not equal: for the standing (3.0, 60), the desired GPA 3.5, 15 next
  credits and one known class of 6 credits at 3.8, the known grades give
  6.633333333333334 and the combined standing gives 6.633333333333332.
\<close>

theorem known_grades_reduce_to_remaining:
  assumes "known_grades ''I know some of my grades'' next_semester_credits known_classes =
             (known_credits, known_grade_points, remaining_credits)"
    and "0 \<le> current_credits"
    and "\<forall>c \<in> set (map fst known_classes). 0 \<le> c"
    and "known_credits \<le> next_semester_credits"
    and "0 < next_semester_credits - known_credits"
  shows "\<exists>known_gpa combined_gpa.
           calculate_gpa (map fst known_classes) (map (Some \<circ> snd) known_classes) = Inr known_gpa
         \<and> calculate_cumulative_gpa current_gpa current_credits known_gpa known_credits =
             Inr combined_gpa
         \<and> combined_gpa * (current_credits + known_credits) =
             current_gpa * current_credits + known_grade_points
         \<and> what_if_scenario ''I know some of my grades'' current_gpa current_credits desired_gpa
               next_semester_credits known_classes =
             what_if_scenario ''I haven't gotten any grades yet'' combined_gpa
               (current_credits + known_credits) desired_gpa
               (next_semester_credits - known_credits) []
         \<and> what_if_scenario ''I know some of my grades'' current_gpa current_credits desired_gpa
               next_semester_credits known_classes =
             Inr ((desired_gpa * (current_credits + next_semester_credits)
                     - current_gpa * current_credits - known_grade_points)
                    / (next_semester_credits - known_credits))"
proof -
  have f: "0 < next_semester_credits"
    using assms(1,5) by (auto simp: known_grades_def split: if_splits)
  have kc: "known_credits = sum_list (map fst known_classes)"
    and kgp: "known_grade_points = sum_list (map (\<lambda>(c, g). c * g) known_classes)"
    and rc: "remaining_credits = next_semester_credits - known_credits"
    using assms(1) known_grades_some [OF f, of known_classes] by simp_all
  have kc0: "0 \<le> known_credits"
    unfolding kc using assms(3) by (auto intro!: sum_list_nonneg)
  define known_gpa where "known_gpa = (if known_credits = 0 then 0 else known_grade_points / known_credits)"
  define combined_gpa where "combined_gpa =
     (if current_credits + known_credits = 0 then 0
      else (current_gpa * current_credits + known_gpa * known_credits)
             / (current_credits + known_credits))"
  have 1: "calculate_gpa (map fst known_classes) (map (Some \<circ> snd) known_classes) = Inr known_gpa"
    by (simp add: calculate_gpa_known_classes known_gpa_def kc kgp)
  have 2: "calculate_cumulative_gpa current_gpa current_credits known_gpa known_credits =
             Inr combined_gpa"
    using assms(2) kc0 by (simp add: calculate_cumulative_gpa_def Let_def combined_gpa_def)
  have z: "known_credits = 0 \<longrightarrow> known_grade_points = 0"
    unfolding kc kgp using no_credits_no_grade_points [OF assms(3)] by simp
  have g: "known_gpa * known_credits = known_grade_points"
    using z by (simp add: known_gpa_def)
  have 3: "combined_gpa * (current_credits + known_credits) =
             current_gpa * current_credits + known_grade_points"
  proof (cases "current_credits + known_credits = 0")
    case True
    then have "current_credits = 0" "known_credits = 0"
      using assms(2) kc0 by simp_all
    then show ?thesis
      using z by (simp add: combined_gpa_def)
  next
    case False
    then show ?thesis
      using g by (simp add: combined_gpa_def)
  qed
  have 5: "what_if_scenario ''I know some of my grades'' current_gpa current_credits desired_gpa
               next_semester_credits known_classes =
             Inr ((desired_gpa * (current_credits + next_semester_credits)
                     - current_gpa * current_credits - known_grade_points)
                    / (next_semester_credits - known_credits))"
    using assms(1,2,5) f rc
    by (simp add: what_if_scenario_def required_gpa_remaining_def Let_def)
  have t: "current_credits + known_credits + (next_semester_credits - known_credits) =
             current_credits + next_semester_credits"
    by simp
  have "what_if_scenario ''I haven't gotten any grades yet'' combined_gpa
               (current_credits + known_credits) desired_gpa
               (next_semester_credits - known_credits) [] =
          Inr ((desired_gpa * (current_credits + next_semester_credits)
                  - combined_gpa * (current_credits + known_credits))
                 / (next_semester_credits - known_credits))"
    using assms(2,5) f
    by (simp add: what_if_scenario_def known_grades_no required_gpa_remaining_def Let_def t)
  then have 4: "what_if_scenario ''I know some of my grades'' current_gpa current_credits desired_gpa
               next_semester_credits known_classes =
             what_if_scenario ''I haven't gotten any grades yet'' combined_gpa
               (current_credits + known_credits) desired_gpa
               (next_semester_credits - known_credits) []"
    unfolding 5 3 by (simp add: algebra_simps)
  from 1 2 3 4 5 show ?thesis by blast
qed

theorem known_grades_reduce_to_remaining_counterexample:
  "f64_round 3.8 = Some (4278419646001971 / 1125899906842624)
   \<and> what_if_scenario_f64 ''I know some of my grades'' 3.0 60 3.5 15
         [(6, 4278419646001971 / 1125899906842624)] =
       Some (Inr (7468469382056073 / 1125899906842624))
   \<and> calculate_gpa_f64 [6] [Some (4278419646001971 / 1125899906842624)] =
       Some (Inr (8556839292003941 / 2251799813685248))
   \<and> calculate_cumulative_gpa_f64 3.0 60 (8556839292003941 / 2251799813685248) 6 =
       Some (Inr (6919166700232853 / 2251799813685248))
   \<and> what_if_scenario_f64 ''I haven't gotten any grades yet''
         (6919166700232853 / 2251799813685248) (60 + 6) 3.5 (15 - 6) [] =
       Some (Inr (7468469382056071 / 1125899906842624))
   \<and> what_if_scenario_f64 ''I know some of my grades'' 3.0 60 3.5 15
         [(6, 4278419646001971 / 1125899906842624)] \<noteq>
       what_if_scenario_f64 ''I haven't gotten any grades yet''
         (6919166700232853 / 2251799813685248) (60 + 6) 3.5 (15 - 6) []"
  using f64_literal_3_8 calculate_gpa_f64_one_class calculate_cumulative_gpa_f64_example
    what_if_scenario_f64_known what_if_scenario_f64_combined
  by simp

theorem known_grades_reduce_to_remaining_witness:
  "known_grades ''I know some of my grades'' 14 [(6, 3.5)] = (6, 21, 8)
   \<and> (0::real) \<le> 58 \<and> set (map fst [(6::real, 3.5::real)]) = {6} \<and> (0::real) \<le> 6
   \<and> (6::real) \<le> 14 \<and> (0::real) < 14 - 6
   \<and> calculate_gpa [6] [Some 3.5] = Inr 3.5
   \<and> calculate_cumulative_gpa 3.0 58 3.5 6 = Inr (195 / 64)
   \<and> what_if_scenario ''I know some of my grades'' 3.0 58 3.5 14 [(6, 3.5)] =
       what_if_scenario ''I haven't gotten any grades yet'' (195 / 64) (58 + 6) 3.5 (14 - 6) []
   \<and> what_if_scenario ''I know some of my grades'' 3.0 58 3.5 14 [(6, 3.5)] = Inr (57 / 8)"
proof -
  have k: "known_grades ''I know some of my grades'' 14 [(6, 3.5)] = (6, 21, 8)"
    by (simp add: known_grades_def)
  have h: "(0::real) \<le> 58" "\<forall>c \<in> set (map fst [(6::real, 3.5::real)]). 0 \<le> c"
    "(6::real) \<le> 14" "(0::real) < 14 - 6"
    by simp_all
  have g: "calculate_gpa [6] [Some 3.5] = Inr 3.5"
    by (simp add: calculate_gpa_def)
  have c: "calculate_cumulative_gpa 3.0 58 3.5 6 = Inr (195 / 64)"
    by (simp add: calculate_cumulative_gpa_def)
  from known_grades_reduce_to_remaining [OF k h, of "3.0" "3.5"]
  obtain known_gpa combined_gpa where
    1: "calculate_gpa (map fst [(6::real, 3.5::real)]) (map (Some \<circ> snd) [(6::real, 3.5::real)]) =
          Inr known_gpa"
    and 2: "calculate_cumulative_gpa 3.0 58 known_gpa 6 = Inr combined_gpa"
    and 3: "what_if_scenario ''I know some of my grades'' 3.0 58 3.5 14 [(6, 3.5)] =
       what_if_scenario ''I haven't gotten any grades yet'' combined_gpa (58 + 6) 3.5 (14 - 6) []"
    and 4: "what_if_scenario ''I know some of my grades'' 3.0 58 3.5 14 [(6, 3.5)] =
       Inr ((3.5 * (58 + 14) - 3.0 * 58 - 21) / (14 - 6))"
    by blast
  from 1 g have "known_gpa = 3.5"
    by simp
  with 2 c have "combined_gpa = 195 / 64"
    by simp
  with 3 4 g c k h show ?thesis
    by simp
qed

text \<open>
  The witness above is at numbers that binary64 represents exactly at every step, and
  the rounded functions return the same values there. The hypothesis on the credits of
  the known classes is needed in exact arithmetic too: classes of 1 and -1 credits have
  0 known credits and grade points that are not 0, which the GPA of the known classes
  loses. The form does not accept such credits (\<open>min_value=0.0\<close>).
\<close>

lemma known_grades_f64_agree_on_exact_numbers:
  "what_if_scenario_f64 ''I know some of my grades'' 3.0 58 3.5 14 [(6, 3.5)] =
     Some (Inr (57 / 8))
   \<and> calculate_gpa_f64 [6] [Some 3.5] = Some (Inr 3.5)
   \<and> calculate_cumulative_gpa_f64 3.0 58 3.5 6 = Some (Inr (195 / 64))
   \<and> what_if_scenario_f64 ''I haven't gotten any grades yet'' (195 / 64) (58 + 6) 3.5
        (14 - 6) [] = Some (Inr (57 / 8))"
  by (simp add: what_if_scenario_f64_def known_grades_f64_def required_gpa_remaining_f64_def
        calculate_gpa_f64_def calculate_cumulative_gpa_f64_def f64_eval)

lemma negative_class_credits_lose_grade_points:
  "known_grades ''I know some of my grades'' 15 [(1, 4.0), (- 1, 2.0)] = (0, 2, 15)
   \<and> what_if_scenario ''I know some of my grades'' 3.0 60 3.5 15 [(1, 4.0), (- 1, 2.0)] =
       Inr (161 / 30)
   \<and> calculate_gpa [1, - 1] [Some 4.0, Some 2.0] = Inr 0.0
   \<and> calculate_cumulative_gpa 3.0 60 0.0 0 = Inr 3.0
   \<and> what_if_scenario ''I haven't gotten any grades yet'' 3.0 (60 + 0) 3.5 (15 - 0) [] =
       Inr (11 / 2)"
  by (simp add: what_if_scenario_def known_grades_def required_gpa_remaining_def
        calculate_gpa_def calculate_cumulative_gpa_def)

end
